theory Spec2Isabelle
  imports Complex_Main
begin

section \<open>Batch analytics: numeric conventions\<close>

text \<open>
  The module computes with Python ints and IEEE floats.  Here a float is an exact
  \<^typ>\<open>real\<close> and NaN is \<open>None\<close> of \<^typ>\<open>real option\<close>; integers are \<^typ>\<open>int\<close>.
  Result dictionaries are records, the \<open>{'error': ...}\<close> dictionaries are the left
  summand of a sum type and carry the message.
\<close>

subsection \<open>Python's \<open>round(x, ndigits)\<close>\<close>

text \<open>Python rounds to the nearest multiple of \<open>10^-ndigits\<close>, ties to the even one.\<close>

definition round_half_even :: "real \<Rightarrow> int" where
  "round_half_even x =
     (let f = \<lfloor>x\<rfloor>; d = x - of_int f
      in if d < 1 / 2 then f
         else if 1 / 2 < d then f + 1
         else if even f then f else f + 1)"

definition py_round :: "real \<Rightarrow> nat \<Rightarrow> real" where
  "py_round x ndigits = of_int (round_half_even (x * 10 ^ ndigits)) / 10 ^ ndigits"

subsection \<open>CONFIG\<close>

record thresholds =
  saturation_critical :: real
  saturation_warning :: real
  volatility_high :: real
  velocity_drop_warning :: real

definition CONFIG_thresholds :: thresholds where
  "CONFIG_thresholds =
     \<lparr>saturation_critical = 40, saturation_warning = 60,
      volatility_high = 150, velocity_drop_warning = 30\<rparr>"

text \<open>\<open>CONFIG['population']\<close>: state name to population in millions.\<close>

definition CONFIG_population :: "(string \<times> real) list" where
  "CONFIG_population =
     [(''Uttar Pradesh'', 240), (''Maharashtra'', 130), (''Bihar'', 128),
      (''West Bengal'', 100), (''Madhya Pradesh'', 87), (''Tamil Nadu'', 80),
      (''Rajasthan'', 82), (''Karnataka'', 70), (''Gujarat'', 72),
      (''Andhra Pradesh'', 53), (''Telangana'', 40), (''Kerala'', 36),
      (''Jharkhand'', 40), (''Odisha'', 47), (''Punjab'', 31)]"

text \<open>\<open>CONFIG['population'].get(state, 50)\<close>\<close>

definition population_get :: "string \<Rightarrow> real" where
  "population_get state =
     (case map_of CONFIG_population state of Some p \<Rightarrow> p | None \<Rightarrow> 50)"

section \<open>Indicator calculation\<close>

record indicator =
  ind_value :: real
  ind_status :: string

record saturation = indicator +
  population_millions :: real

definition calculate_saturation_index :: "int \<Rightarrow> string \<Rightarrow> saturation" where
  "calculate_saturation_index total_enrollments state =
     (let population = population_get state * 1000000;
          index = min ((of_int total_enrollments / population) * 100) 120;
          status = (if index < saturation_critical CONFIG_thresholds then ''critical''
                    else if index < saturation_warning CONFIG_thresholds then ''warning''
                    else ''healthy'')
      in \<lparr>ind_value = py_round index 1, ind_status = status,
          population_millions = population_get state\<rparr>)"


subsection \<open>Volatility index\<close>

text \<open>\<open>np.mean\<close> and \<open>np.std\<close> (population standard deviation, \<open>ddof = 0\<close>) of a list.\<close>

definition np_mean :: "real list \<Rightarrow> real" where
  "np_mean xs = sum_list xs / real (length xs)"

definition np_std :: "real list \<Rightarrow> real" where
  "np_std xs = sqrt (np_mean (map (\<lambda>x. \<bar>x - np_mean xs\<bar>\<^sup>2) xs))"

definition calculate_volatility_index :: "real list \<Rightarrow> indicator" where
  "calculate_volatility_index daily_values =
     (if length daily_values < 2 then \<lparr>ind_value = 0, ind_status = ''insufficient_data''\<rparr>
      else let mean = np_mean daily_values
           in if mean = 0 then \<lparr>ind_value = 0, ind_status = ''no_activity''\<rparr>
              else let std = np_std daily_values;
                       cv = (std / mean) * 100;
                       status = (if cv < 50 then ''stable''
                                 else if cv < 100 then ''moderate''
                                 else if cv < volatility_high CONFIG_thresholds then ''high''
                                 else ''critical'')
                   in \<lparr>ind_value = py_round cv 1, ind_status = status\<rparr>)"

section \<open>Forecasting\<close>

record forecast_result =
  slope :: real
  intercept :: real
  r_squared :: real
  forecast :: "real list"
  trend :: string

text \<open>\<open>np.arange(a, b)\<close> as floats; empty when \<open>b \<le> a\<close>.\<close>

definition np_arange :: "int \<Rightarrow> int \<Rightarrow> real list" where
  "np_arange a b = map real_of_int [a..b - 1]"

text \<open>
  \<open>simple_linear_forecast(time_series, periods=30)\<close>.  The series is given by its values in
  index order; \<open>X\<close> is the column \<open>0, ..., n - 1\<close>.
\<close>

definition simple_linear_forecast :: "real list \<Rightarrow> int \<Rightarrow> string + forecast_result" where
  "simple_linear_forecast time_series periods =
     (if length time_series < 10 then Inl ''Insufficient data for forecasting''
      else
        let X = np_arange 0 (int (length time_series));
            y = time_series;
            X_mean = np_mean X;
            y_mean = np_mean y;
            numerator = sum_list (map (\<lambda>(x, yv). (x - X_mean) * (yv - y_mean)) (zip X y));
            denominator = sum_list (map (\<lambda>x. (x - X_mean)\<^sup>2) X)
        in if denominator = 0 then Inl ''Cannot calculate slope''
           else
             let slope = numerator / denominator;
                 intercept = y_mean - slope * X_mean;
                 future_X = np_arange (int (length time_series))
                              (int (length time_series) + periods);
                 forecast = map (\<lambda>x. slope * x + intercept) future_X;
                 y_pred = map (\<lambda>x. slope * x + intercept) X;
                 ss_res = sum_list (map (\<lambda>(yv, yp). (yv - yp)\<^sup>2) (zip y y_pred));
                 ss_tot = sum_list (map (\<lambda>yv. (yv - y_mean)\<^sup>2) y);
                 r_squared = (if ss_tot > 0 then 1 - (ss_res / ss_tot) else 0)
             in Inr \<lparr>slope = slope, intercept = intercept, r_squared = r_squared,
                     forecast = forecast,
                     trend = (if slope > 0 then ''increasing''
                              else if slope < 0 then ''decreasing'' else ''flat'')\<rparr>)"

text \<open>
  The horizon: the default of the keyword argument \<open>periods\<close>, which is also the value
  that \<open>forecast_enrollment_trend\<close>, the only caller, passes.
\<close>

definition periods_default :: int where
  "periods_default = 30"

section \<open>Univariate analysis\<close>

subsection \<open>Tables and numeric coercion\<close>

text \<open>
  A table is the list of its columns in order, each a name with its cells by row
  position; all columns of a table have the same number of rows.  A cell is seen through
  \<open>pd.to_numeric(..., errors='coerce')\<close>: \<open>Numeric v\<close> is a value that converts to the
  number \<open>v\<close>, \<open>NonNumeric\<close> one that does not (missing, blank, unparsable text) and
  becomes NaN.
\<close>

datatype cell = Numeric real | NonNumeric

type_synonym dataframe = "(string \<times> cell list) list"

definition to_numeric :: "cell list \<Rightarrow> real option list" where
  "to_numeric cells = map (\<lambda>c. case c of Numeric v \<Rightarrow> Some v | NonNumeric \<Rightarrow> None) cells"

definition dropna :: "real option list \<Rightarrow> real list" where
  "dropna s = List.map_filter (\<lambda>v. v) s"

subsection \<open>The statistics of a pandas Series\<close>

text \<open>
  The methods of a Series without NaN, as pandas computes them with its default
  arguments.  \<open>std\<close> has \<open>ddof = 1\<close>: the divisor is \<open>n - 1\<close>, and the result is NaN for
  a single value.  \<open>quantile\<close> interpolates linearly between the two nearest order
  statistics.  \<open>skew\<close> and \<open>kurtosis\<close> are the bias-corrected estimators, NaN below 3 and
  4 values, 0 when the spread is 0.
\<close>

definition series_mean :: "real list \<Rightarrow> real" where
  "series_mean xs = sum_list xs / real (length xs)"

definition series_std :: "real list \<Rightarrow> real option" where
  "series_std xs =
     (if length xs \<le> 1 then None
      else Some (sqrt (sum_list (map (\<lambda>x. (x - series_mean xs)\<^sup>2) xs)
                        / (real (length xs) - 1))))"

definition series_min :: "real list \<Rightarrow> real" where
  "series_min xs = Min (set xs)"

definition series_max :: "real list \<Rightarrow> real" where
  "series_max xs = Max (set xs)"

definition series_median :: "real list \<Rightarrow> real" where
  "series_median xs =
     (let sorted_xs = sort xs; n = length xs
      in if odd n then sorted_xs ! (n div 2)
         else (sorted_xs ! (n div 2 - 1) + sorted_xs ! (n div 2)) / 2)"

definition series_quantile :: "real list \<Rightarrow> real \<Rightarrow> real" where
  "series_quantile xs q =
     (let sorted_xs = sort xs; n = length xs;
          pos = (real n - 1) * q;
          lo = nat \<lfloor>pos\<rfloor>;
          hi = min (lo + 1) (n - 1)
      in sorted_xs ! lo + (pos - real lo) * (sorted_xs ! hi - sorted_xs ! lo))"

definition series_skew :: "real list \<Rightarrow> real option" where
  "series_skew xs =
     (let n = real (length xs);
          m2 = sum_list (map (\<lambda>x. (x - series_mean xs)\<^sup>2) xs);
          m3 = sum_list (map (\<lambda>x. (x - series_mean xs) ^ 3) xs)
      in if length xs < 3 then None
         else if m2 = 0 then Some 0
         else Some ((n * sqrt (n - 1) / (n - 2)) * (m3 / (m2 * sqrt m2))))"

definition series_kurtosis :: "real list \<Rightarrow> real option" where
  "series_kurtosis xs =
     (let n = real (length xs);
          m2 = sum_list (map (\<lambda>x. (x - series_mean xs)\<^sup>2) xs);
          m4 = sum_list (map (\<lambda>x. (x - series_mean xs) ^ 4) xs);
          adj = 3 * (n - 1)\<^sup>2 / ((n - 2) * (n - 3));
          numerator = n * (n + 1) * (n - 1) * m4;
          denominator = (n - 2) * (n - 3) * m2\<^sup>2
      in if length xs < 4 then None
         else if denominator = 0 then Some 0
         else Some (numerator / denominator - adj))"

subsection \<open>\<open>univariate_analysis\<close>\<close>

record univariate_result =
  ua_column :: string
  ua_count :: nat
  ua_mean :: real
  ua_std :: "real option"
  ua_min :: real
  ua_max :: real
  ua_median :: real
  ua_q25 :: real
  ua_q75 :: real
  ua_skewness :: "real option"
  ua_kurtosis :: "real option"

definition univariate_analysis :: "dataframe \<Rightarrow> string \<Rightarrow> string + univariate_result" where
  "univariate_analysis df column =
     (case map_of df column of
        None \<Rightarrow> Inl (''Column '' @ column @ '' not found'')
      | Some cells \<Rightarrow>
          let series = dropna (to_numeric cells)
          in if length series = 0 then Inl (''No valid numeric data in '' @ column)
             else Inr \<lparr>ua_column = column,
                       ua_count = length series,
                       ua_mean = series_mean series,
                       ua_std = series_std series,
                       ua_min = series_min series,
                       ua_max = series_max series,
                       ua_median = series_median series,
                       ua_q25 = series_quantile series 0.25,
                       ua_q75 = series_quantile series 0.75,
                       ua_skewness = series_skew series,
                       ua_kurtosis = series_kurtosis series\<rparr>)"

section \<open>Bivariate analysis\<close>

subsection \<open>\<open>str.title()\<close> on ASCII text\<close>

definition is_lower :: "char \<Rightarrow> bool" where
  "is_lower c \<longleftrightarrow> 97 \<le> (of_char c :: nat) \<and> (of_char c :: nat) \<le> 122"

definition is_upper :: "char \<Rightarrow> bool" where
  "is_upper c \<longleftrightarrow> 65 \<le> (of_char c :: nat) \<and> (of_char c :: nat) \<le> 90"

definition to_upper :: "char \<Rightarrow> char" where
  "to_upper c = (if is_lower c then char_of ((of_char c :: nat) - 32) else c)"

definition to_lower :: "char \<Rightarrow> char" where
  "to_lower c = (if is_upper c then char_of ((of_char c :: nat) + 32) else c)"

text \<open>
  A letter that follows a letter is lowered, any other letter is raised; the flag is
  \<open>previous_is_cased\<close>.
\<close>

fun title_from :: "bool \<Rightarrow> string \<Rightarrow> string" where
  "title_from previous_is_cased [] = []"
| "title_from previous_is_cased (c # cs) =
     (if is_lower c \<or> is_upper c
      then (if previous_is_cased then to_lower c else to_upper c) # title_from True cs
      else c # title_from False cs)"

definition title :: "string \<Rightarrow> string" where
  "title s = title_from False s"

subsection \<open>\<open>interpret_correlation\<close>\<close>

text \<open>The argument is a float that may be NaN (\<open>None\<close>).\<close>

definition interpret_correlation :: "real option \<Rightarrow> string" where
  "interpret_correlation r_opt =
     (case r_opt of
        None \<Rightarrow> ''No correlation calculated''
      | Some r \<Rightarrow>
          let abs_r = \<bar>r\<bar>;
              direction = (if r > 0 then ''positive'' else ''negative'');
              strength = (if abs_r < 0.1 then ''negligible''
                          else if abs_r < 0.3 then ''weak''
                          else if abs_r < 0.5 then ''moderate''
                          else if abs_r < 0.7 then ''strong''
                          else ''very strong'')
          in title strength @ '' '' @ direction @ '' correlation'')"

subsection \<open>Masks and Pearson correlation\<close>

definition notna :: "real option list \<Rightarrow> bool list" where
  "notna s = map (\<lambda>v. v \<noteq> None) s"

text \<open>Boolean-mask selection \<open>s[mask]\<close>; the positions kept hold numbers.\<close>

definition select_mask :: "real option list \<Rightarrow> bool list \<Rightarrow> real list" where
  "select_mask s msk = List.map_filter (\<lambda>(v, m). if m then v else None) (zip s msk)"

text \<open>
  \<open>Series.corr\<close> (Pearson, computed by \<open>np.corrcoef\<close>): the covariance matrix with divisor
  \<open>n - 1\<close>, divided by both standard deviations and clipped to \<open>[-1, 1]\<close>; NaN when a
  variance is 0.
\<close>

definition series_corr :: "real list \<Rightarrow> real list \<Rightarrow> real option" where
  "series_corr a b =
     (let fact = real (length a) - 1;
          c_aa = sum_list (map (\<lambda>x. (x - np_mean a)\<^sup>2) a) / fact;
          c_bb = sum_list (map (\<lambda>y. (y - np_mean b)\<^sup>2) b) / fact;
          c_ab = sum_list (map (\<lambda>(x, y). (x - np_mean a) * (y - np_mean b)) (zip a b)) / fact
      in if c_aa = 0 \<or> c_bb = 0 then None
         else Some (max (- 1) (min 1 (c_ab / sqrt c_aa / sqrt c_bb))))"

subsection \<open>\<open>bivariate_correlation\<close>\<close>

record correlation_result =
  column1 :: string
  column2 :: string
  correlation :: real
  sample_size :: nat
  interpretation_label :: string

definition bivariate_correlation ::
    "dataframe \<Rightarrow> string \<Rightarrow> string \<Rightarrow> string + correlation_result" where
  "bivariate_correlation df col1 col2 =
     (case (map_of df col1, map_of df col2) of
        (Some cells1, Some cells2) \<Rightarrow>
          let s1 = to_numeric cells1;
              s2 = to_numeric cells2;
              valid_mask = map (\<lambda>(m1, m2). m1 \<and> m2) (zip (notna s1) (notna s2));
              s1' = select_mask s1 valid_mask;
              s2' = select_mask s2 valid_mask
          in if length s1' < 2 then Inl ''Insufficient data''
             else
               let corr = series_corr s1' s2'
               in Inr \<lparr>column1 = col1, column2 = col2,
                       correlation = (case corr of Some r \<Rightarrow> r | None \<Rightarrow> 0),
                       sample_size = length s1',
                       interpretation_label = interpret_correlation corr\<rparr>
      | _ \<Rightarrow> Inl ''Columns not found'')"

subsection \<open>\<open>extract_top_correlations\<close>\<close>

text \<open>
  A correlation matrix is its column names in order together with the lookup
  \<open>corr_matrix.loc[col1, col2]\<close>, which may be NaN.  An entry of the result list has the
  keys \<open>pair\<close> and \<open>correlation\<close>.
\<close>

type_synonym corr_matrix = "string list \<times> (string \<Rightarrow> string \<Rightarrow> real option)"

record corr_pair =
  pair :: string
  pair_correlation :: real

text \<open>The inner and the outer \<open>for ... in enumerate(cols)\<close>, appending to \<open>pairs\<close>.\<close>

fun pairs_inner ::
    "(string \<Rightarrow> string \<Rightarrow> real option) \<Rightarrow> nat \<Rightarrow> string \<Rightarrow> (nat \<times> string) list
      \<Rightarrow> corr_pair list \<Rightarrow> corr_pair list" where
  "pairs_inner loc i col1 [] pairs = pairs"
| "pairs_inner loc i col1 ((j, col2) # rest) pairs =
     pairs_inner loc i col1 rest
       (if i < j
        then (case loc col1 col2 of
                None \<Rightarrow> pairs
              | Some r \<Rightarrow> pairs @ [\<lparr>pair = col1 @ '' vs '' @ col2, pair_correlation = r\<rparr>])
        else pairs)"

fun pairs_outer ::
    "(string \<Rightarrow> string \<Rightarrow> real option) \<Rightarrow> string list \<Rightarrow> (nat \<times> string) list
      \<Rightarrow> corr_pair list \<Rightarrow> corr_pair list" where
  "pairs_outer loc cols [] pairs = pairs"
| "pairs_outer loc cols ((i, col1) # rest) pairs =
     pairs_outer loc cols rest (pairs_inner loc i col1 (enumerate 0 cols) pairs)"

text \<open>The slice \<open>xs[:n]\<close>; a negative \<open>n\<close> counts from the end.\<close>

definition slice_to :: "'a list \<Rightarrow> int \<Rightarrow> 'a list" where
  "slice_to xs n = (if 0 \<le> n then take (nat n) xs else take (length xs - nat (- n)) xs)"

text \<open>
  \<open>pairs.sort(key=lambda x: abs(x['correlation']), reverse=True)\<close> is a stable sort into
  descending order of the key, that is a stable ascending sort on the negated key.
\<close>

definition extract_top_correlations :: "corr_matrix \<Rightarrow> int \<Rightarrow> corr_pair list" where
  "extract_top_correlations corr_matrix n =
     (let cols = fst corr_matrix;
          pairs = pairs_outer (snd corr_matrix) cols (enumerate 0 cols) [];
          pairs = sort_key (\<lambda>x. - \<bar>pair_correlation x\<bar>) pairs
      in slice_to pairs n)"

definition n_default :: int where
  "n_default = 5"

section \<open>Rounding and the population table\<close>

lemma round_half_even_bounds:
  "\<lfloor>x\<rfloor> \<le> round_half_even x" "round_half_even x \<le> \<lfloor>x\<rfloor> + 1"
  by (simp_all add: round_half_even_def Let_def)

lemma round_half_even_of_int: "round_half_even (of_int n) = n"
  by (simp add: round_half_even_def Let_def)

lemma round_half_even_mono:
  assumes "x \<le> y"
  shows "round_half_even x \<le> round_half_even y"
proof (cases "\<lfloor>x\<rfloor> = \<lfloor>y\<rfloor>")
  case True
  with assms have "x - of_int \<lfloor>x\<rfloor> \<le> y - of_int \<lfloor>y\<rfloor>" by simp
  with True show ?thesis
    by (auto simp: round_half_even_def Let_def)
next
  case False
  with assms have "\<lfloor>x\<rfloor> < \<lfloor>y\<rfloor>"
    using floor_mono [of x y] by linarith
  then have "round_half_even x \<le> \<lfloor>y\<rfloor>"
    using round_half_even_bounds(2) [of x] by linarith
  then show ?thesis
    using round_half_even_bounds(1) [of y] by linarith
qed

lemma py_round_mono: "x \<le> y \<Longrightarrow> py_round x n \<le> py_round y n"
  by (simp add: py_round_def divide_right_mono round_half_even_mono)

lemma py_round_zero: "py_round 0 n = 0"
  using round_half_even_of_int [of 0] by (simp add: py_round_def)

lemma py_round_nonneg: "0 \<le> x \<Longrightarrow> 0 \<le> py_round x n"
  using py_round_mono [of 0 x n] by (simp add: py_round_zero)

lemma py_round_120: "py_round 120 1 = 120"
  using round_half_even_of_int [of 1200] by (simp add: py_round_def)

lemma population_get_pos: "0 < population_get state"
proof (cases "map_of CONFIG_population state")
  case None
  then show ?thesis by (simp add: population_get_def)
next
  case (Some p)
  then have "(state, p) \<in> set CONFIG_population" by (rule map_of_SomeD)
  then have "0 < p" by (auto simp: CONFIG_population_def)
  with Some show ?thesis by (simp add: population_get_def)
qed

section \<open>Saturation index\<close>

lemmas saturation_eval =
  calculate_saturation_index_def population_get_def CONFIG_population_def
  CONFIG_thresholds_def py_round_def round_half_even_def Let_def

theorem saturation_status_unrounded:
  "ind_value (calculate_saturation_index 21599999 ''Kerala'') = 60 \<and>
   ind_status (calculate_saturation_index 21599999 ''Kerala'') = ''warning'' \<and>
   ind_status (calculate_saturation_index 21599999 ''Kerala'') \<noteq> ''healthy''"
  by (simp add: saturation_eval)

text \<open>
  Claim C1 (as amended).  For every total \<open>t\<close> and state \<open>s\<close>, with \<open>pop\<close> the table entry
  of \<open>s\<close> in millions (50 when \<open>s\<close> is not in the table), the index is
  \<open>v = min (t / (pop * 1000000) * 100) 120\<close>; the value returned is \<open>v\<close> rounded to one
  decimal place, and the status is chosen from the unrounded \<open>v\<close>: critical when \<open>v < 40\<close>,
  warning when \<open>40 \<le> v < 60\<close> and healthy when \<open>60 \<le> v\<close>.  A total of 10,000,000 for
  Kerala (36 million) is reported as 27.8, critical.  The bands do not hold of the
  returned value: 21,599,999 for Kerala is reported as 60.0 with status warning.
\<close>

theorem saturation_index_formula:
  "(let pop = (case map_of CONFIG_population s of Some p \<Rightarrow> p | None \<Rightarrow> 50);
        v = min (real_of_int t / (pop * 1000000) * 100) 120;
        r = calculate_saturation_index t s
    in population_millions r = pop \<and> ind_value r = py_round v 1 \<and>
       (v < 40 \<longrightarrow> ind_status r = ''critical'') \<and>
       (40 \<le> v \<and> v < 60 \<longrightarrow> ind_status r = ''warning'') \<and>
       (60 \<le> v \<longrightarrow> ind_status r = ''healthy'')) \<and>
   map_of CONFIG_population ''Kerala'' = Some 36 \<and>
   ind_value (calculate_saturation_index 10000000 ''Kerala'') = 27.8 \<and>
   ind_status (calculate_saturation_index 10000000 ''Kerala'') = ''critical''"
proof -
  have kerala: "map_of CONFIG_population ''Kerala'' = Some 36"
    by (simp add: CONFIG_population_def)
  have v: "ind_value (calculate_saturation_index 10000000 ''Kerala'') = 27.8"
    by (simp add: saturation_eval)
  have st: "ind_status (calculate_saturation_index 10000000 ''Kerala'') = ''critical''"
    by (simp add: saturation_eval)
  have gen: "let pop = (case map_of CONFIG_population s of Some p \<Rightarrow> p | None \<Rightarrow> 50);
        v = min (real_of_int t / (pop * 1000000) * 100) 120;
        r = calculate_saturation_index t s
    in population_millions r = pop \<and> ind_value r = py_round v 1 \<and>
       (v < 40 \<longrightarrow> ind_status r = ''critical'') \<and>
       (40 \<le> v \<and> v < 60 \<longrightarrow> ind_status r = ''warning'') \<and>
       (60 \<le> v \<longrightarrow> ind_status r = ''healthy'')"
    unfolding calculate_saturation_index_def population_get_def
      CONFIG_thresholds_def Let_def
    by (cases "real_of_int t / ((case map_of CONFIG_population s of Some p \<Rightarrow> p | None \<Rightarrow> 50) * 1000000) * 100 \<le> 120")
      (simp_all add: min_def)
  from gen kerala v st show ?thesis by blast
qed

theorem saturation_index_formula_witness:
  "ind_status (calculate_saturation_index 10000000 ''Kerala'') = ''critical'' \<and>
   ind_status (calculate_saturation_index 18000000 ''Kerala'') = ''warning'' \<and>
   ind_status (calculate_saturation_index 36000000 ''Nowhere'') = ''healthy''"
  using saturation_index_formula [of "''Kerala''" 10000000]
    saturation_index_formula [of "''Kerala''" 18000000]
    saturation_index_formula [of "''Nowhere''" 36000000]
  by (simp add: CONFIG_population_def Let_def)

theorem saturation_value_negative_total:
  "ind_value (calculate_saturation_index (- 10000000) ''Kerala'') = - 27.8 \<and>
   \<not> 0 \<le> ind_value (calculate_saturation_index (- 10000000) ''Kerala'')"
  by (simp add: saturation_eval)

text \<open>
  Claim C8 (as amended).  For a fixed state the reported saturation value is monotonically
  non-decreasing in the total, and it never exceeds 120; it is at least 0 whenever the
  total is non-negative.  The code has no lower clamp: a negative total gives a negative
  value.
\<close>

theorem saturation_monotone_bounded:
  "(t1 \<le> t2 \<longrightarrow>
      ind_value (calculate_saturation_index t1 s) \<le> ind_value (calculate_saturation_index t2 s)) \<and>
   ind_value (calculate_saturation_index t s) \<le> 120 \<and>
   (0 \<le> t \<longrightarrow> 0 \<le> ind_value (calculate_saturation_index t s))"
proof (intro conjI impI)
  assume "t1 \<le> t2"
  then have "real_of_int t1 / (population_get s * 1000000) * 100
      \<le> real_of_int t2 / (population_get s * 1000000) * 100"
    using population_get_pos [of s] by (simp add: divide_right_mono)
  then have "min (real_of_int t1 / (population_get s * 1000000) * 100) 120
      \<le> min (real_of_int t2 / (population_get s * 1000000) * 100) 120"
    by (simp add: min.coboundedI1)
  then show "ind_value (calculate_saturation_index t1 s)
      \<le> ind_value (calculate_saturation_index t2 s)"
    by (simp add: calculate_saturation_index_def Let_def py_round_mono)
next
  have "py_round (min (real_of_int t / (population_get s * 1000000) * 100) 120) 1
      \<le> py_round 120 1"
    by (rule py_round_mono) simp
  then have "py_round (min (real_of_int t / (population_get s * 1000000) * 100) 120) 1 \<le> 120"
    by (simp only: py_round_120)
  then show "ind_value (calculate_saturation_index t s) \<le> 120"
    by (simp add: calculate_saturation_index_def Let_def)
next
  assume "0 \<le> t"
  then have "0 \<le> min (real_of_int t / (population_get s * 1000000) * 100) 120"
    using population_get_pos [of s] by simp
  then show "0 \<le> ind_value (calculate_saturation_index t s)"
    by (simp add: calculate_saturation_index_def Let_def py_round_nonneg)
qed

theorem saturation_monotone_bounded_witness:
  "(10000000::int) \<le> 20000000 \<and>
   ind_value (calculate_saturation_index 10000000 ''Kerala'')
     \<le> ind_value (calculate_saturation_index 20000000 ''Kerala'') \<and>
   0 \<le> ind_value (calculate_saturation_index 20000000 ''Kerala'')"
  using saturation_monotone_bounded [of 10000000 20000000 "''Kerala''" 20000000]
  by simp

section \<open>Volatility index\<close>

lemmas volatility_eval =
  calculate_volatility_index_def np_mean_def np_std_def CONFIG_thresholds_def
  py_round_def round_half_even_def Let_def

lemma np_std_nonneg: "0 \<le> np_std xs"
proof -
  have "0 \<le> (\<Sum>x\<leftarrow>xs. \<bar>x - np_mean xs\<bar>\<^sup>2)"
    by (rule sum_list_nonneg) auto
  then show ?thesis
    by (simp add: np_std_def np_mean_def [of "map f xs" for f])
qed

lemma sum_list_all_zero: "(\<And>x. x \<in> set xs \<Longrightarrow> f x = (0::real)) \<Longrightarrow> (\<Sum>x\<leftarrow>xs. f x) = 0"
  by (induction xs) auto

lemma np_mean_const:
  assumes "\<forall>x\<in>set xs. x = c" "xs \<noteq> []"
  shows "np_mean xs = c"
proof -
  from assms(1) have "xs = replicate (length xs) c"
    by (simp add: replicate_length_same)
  then have "sum_list xs = real (length xs) * c"
    by (metis sum_list_replicate)
  with assms(2) show ?thesis by (simp add: np_mean_def)
qed

lemma np_std_const:
  assumes "\<forall>x\<in>set xs. x = c" "xs \<noteq> []"
  shows "np_std xs = 0"
proof -
  have m: "np_mean xs = c" using assms by (rule np_mean_const)
  have "(\<Sum>x\<leftarrow>xs. \<bar>x - c\<bar>\<^sup>2) = 0"
    using assms(1) by (intro sum_list_all_zero) simp
  then show ?thesis
    unfolding np_std_def m by (simp add: np_mean_def)
qed

lemma np_std_population:
  "np_std xs = sqrt ((\<Sum>x\<leftarrow>xs. (x - sum_list xs / real (length xs))\<^sup>2) / real (length xs))"
  by (simp add: np_std_def np_mean_def)

lemma volatility_fit:
  assumes "2 \<le> length xs" "np_mean xs \<noteq> 0"
  shows "calculate_volatility_index xs =
     \<lparr>ind_value = py_round (np_std xs / np_mean xs * 100) 1,
      ind_status = (if np_std xs / np_mean xs * 100 < 50 then ''stable''
                    else if np_std xs / np_mean xs * 100 < 100 then ''moderate''
                    else if np_std xs / np_mean xs * 100 < 150 then ''high''
                    else ''critical'')\<rparr>"
  using assms by (simp add: calculate_volatility_index_def CONFIG_thresholds_def Let_def)

subsection \<open>The volatility cases\<close>

theorem volatility_value_rounded:
  "ind_value (calculate_volatility_index [1, 2]) = 33.3 \<and>
   np_std [1, 2] / np_mean [1, 2] * 100 = 100 / 3 \<and>
   ind_value (calculate_volatility_index [1, 2]) \<noteq> np_std [1, 2] / np_mean [1, 2] * 100"
  by (simp add: volatility_eval power2_eq_square real_sqrt_divide)

text \<open>
  Claim C3 (as amended).  With fewer than 2 observations the result is value 0, status
  insufficient_data; with mean exactly 0 it is value 0, status no_activity; otherwise, with
  \<open>cv = population_std / mean * 100\<close> for the population standard deviation (divisor \<open>n\<close>),
  the reported value is \<open>cv\<close> rounded to one decimal place and the status is chosen from the
  unrounded \<open>cv\<close>: stable below 50, moderate below 100, high below 150, critical from 150.
  The value returned is the rounded one: for \<open>[1, 2]\<close> it is 33.3, not 100/3.
\<close>

theorem volatility_index_cases:
  "(length xs < 2 \<longrightarrow>
      calculate_volatility_index xs = \<lparr>ind_value = 0, ind_status = ''insufficient_data''\<rparr>) \<and>
   (2 \<le> length xs \<and> sum_list xs / real (length xs) = 0 \<longrightarrow>
      calculate_volatility_index xs = \<lparr>ind_value = 0, ind_status = ''no_activity''\<rparr>) \<and>
   (2 \<le> length xs \<and> sum_list xs / real (length xs) \<noteq> 0 \<longrightarrow>
      (let n = real (length xs);
           mean = sum_list xs / n;
           population_std = sqrt ((\<Sum>x\<leftarrow>xs. (x - mean)\<^sup>2) / n);
           cv = population_std / mean * 100;
           r = calculate_volatility_index xs
       in ind_value r = py_round cv 1 \<and>
          (cv < 50 \<longrightarrow> ind_status r = ''stable'') \<and>
          (50 \<le> cv \<and> cv < 100 \<longrightarrow> ind_status r = ''moderate'') \<and>
          (100 \<le> cv \<and> cv < 150 \<longrightarrow> ind_status r = ''high'') \<and>
          (150 \<le> cv \<longrightarrow> ind_status r = ''critical'')))"
proof (intro conjI impI)
  assume "length xs < 2"
  then show "calculate_volatility_index xs = \<lparr>ind_value = 0, ind_status = ''insufficient_data''\<rparr>"
    by (simp add: calculate_volatility_index_def)
next
  assume "2 \<le> length xs \<and> sum_list xs / real (length xs) = 0"
  then have "2 \<le> length xs" "np_mean xs = 0" by (simp_all add: np_mean_def)
  then show "calculate_volatility_index xs = \<lparr>ind_value = 0, ind_status = ''no_activity''\<rparr>"
    by (simp add: calculate_volatility_index_def)
next
  assume "2 \<le> length xs \<and> sum_list xs / real (length xs) \<noteq> 0"
  then have a: "2 \<le> length xs" "np_mean xs \<noteq> 0" by (simp_all add: np_mean_def)
  define cv where "cv = np_std xs / np_mean xs * 100"
  have r: "calculate_volatility_index xs =
     \<lparr>ind_value = py_round cv 1,
      ind_status = (if cv < 50 then ''stable'' else if cv < 100 then ''moderate''
                    else if cv < 150 then ''high'' else ''critical'')\<rparr>"
    unfolding cv_def using a by (rule volatility_fit)
  have cv: "cv = sqrt ((\<Sum>x\<leftarrow>xs. (x - sum_list xs / real (length xs))\<^sup>2) / real (length xs))
      / (sum_list xs / real (length xs)) * 100"
    unfolding cv_def np_std_population by (simp only: np_mean_def)
  have "ind_value (calculate_volatility_index xs) = py_round cv 1 \<and>
      (cv < 50 \<longrightarrow> ind_status (calculate_volatility_index xs) = ''stable'') \<and>
      (50 \<le> cv \<and> cv < 100 \<longrightarrow> ind_status (calculate_volatility_index xs) = ''moderate'') \<and>
      (100 \<le> cv \<and> cv < 150 \<longrightarrow> ind_status (calculate_volatility_index xs) = ''high'') \<and>
      (150 \<le> cv \<longrightarrow> ind_status (calculate_volatility_index xs) = ''critical'')"
    unfolding r by simp
  then show "let n = real (length xs);
           mean = sum_list xs / n;
           population_std = sqrt ((\<Sum>x\<leftarrow>xs. (x - mean)\<^sup>2) / n);
           cv = population_std / mean * 100;
           r = calculate_volatility_index xs
       in ind_value r = py_round cv 1 \<and>
          (cv < 50 \<longrightarrow> ind_status r = ''stable'') \<and>
          (50 \<le> cv \<and> cv < 100 \<longrightarrow> ind_status r = ''moderate'') \<and>
          (100 \<le> cv \<and> cv < 150 \<longrightarrow> ind_status r = ''high'') \<and>
          (150 \<le> cv \<longrightarrow> ind_status r = ''critical'')"
    unfolding Let_def cv .
qed

theorem volatility_index_cases_witness:
  "calculate_volatility_index [7] = \<lparr>ind_value = 0, ind_status = ''insufficient_data''\<rparr> \<and>
   calculate_volatility_index [1, - 1] = \<lparr>ind_value = 0, ind_status = ''no_activity''\<rparr> \<and>
   ind_value (calculate_volatility_index [1, 2]) = 33.3 \<and>
   ind_status (calculate_volatility_index [1, 2]) = ''stable'' \<and>
   ind_status (calculate_volatility_index [1, 7]) = ''moderate'' \<and>
   ind_status (calculate_volatility_index [0, 2]) = ''high'' \<and>
   ind_status (calculate_volatility_index [- 1, 3]) = ''critical''"
proof -
  have s1: "sqrt ((\<Sum>x\<leftarrow>[1, 2]. (x - sum_list [1, 2] / real (length [1, 2::real]))\<^sup>2)
      / real (length [1, 2::real])) = 1 / 2"
    by (simp add: power2_eq_square real_sqrt_divide)
  have s2: "sqrt ((\<Sum>x\<leftarrow>[1, 7]. (x - sum_list [1, 7] / real (length [1, 7::real]))\<^sup>2)
      / real (length [1, 7::real])) = 3"
    using real_sqrt_abs [of 3] by (simp add: power2_eq_square)
  have s3: "sqrt ((\<Sum>x\<leftarrow>[0, 2]. (x - sum_list [0, 2] / real (length [0, 2::real]))\<^sup>2)
      / real (length [0, 2::real])) = 1"
    by (simp add: power2_eq_square)
  have s4: "sqrt ((\<Sum>x\<leftarrow>[- 1, 3]. (x - sum_list [- 1, 3] / real (length [- 1, 3::real]))\<^sup>2)
      / real (length [- 1, 3::real])) = 2"
    by (simp add: power2_eq_square)
  show ?thesis
    using volatility_index_cases [of "[7]"] volatility_index_cases [of "[1, - 1]"]
      volatility_index_cases [of "[1, 2]"] volatility_index_cases [of "[1, 7]"]
      volatility_index_cases [of "[0, 2]"] volatility_index_cases [of "[- 1, 3]"]
    unfolding Let_def s1 s2 s3 s4
    by (simp add: py_round_def round_half_even_def)
qed


subsection \<open>Sign of the volatility value\<close>

theorem volatility_negative_mean:
  "calculate_volatility_index [- 1, - 3] = \<lparr>ind_value = - 50, ind_status = ''stable''\<rparr> \<and>
   \<not> 0 \<le> ind_value (calculate_volatility_index [- 1, - 3])"
  by (simp add: volatility_eval power2_eq_square)

lemma volatility_nonneg_mean:
  assumes m: "0 \<le> np_mean xs"
  shows "0 \<le> ind_value (calculate_volatility_index xs)"
proof (cases "2 \<le> length xs \<and> np_mean xs \<noteq> 0")
  case True
  with m have "0 < np_mean xs" by linarith
  then have "0 \<le> np_std xs / np_mean xs * 100"
    using np_std_nonneg [of xs] by simp
  then have "0 \<le> py_round (np_std xs / np_mean xs * 100) 1"
    by (rule py_round_nonneg)
  with True show ?thesis by (simp add: volatility_fit)
next
  case False
  then show ?thesis by (auto simp: calculate_volatility_index_def)
qed

text \<open>
  Claim C9 (as amended).  The volatility value is non-negative whenever the mean of the
  daily totals is non-negative, in particular whenever no total is negative; a constant
  sequence of length at least 2 with \<open>c \<noteq> 0\<close> has value 0 and status stable.  The code
  divides by the signed mean: for \<open>[-1, -3]\<close> the value is -50.
\<close>

theorem volatility_nonneg_constant:
  "(0 \<le> sum_list xs / real (length xs) \<longrightarrow> 0 \<le> ind_value (calculate_volatility_index xs)) \<and>
   ((\<forall>x\<in>set xs. 0 \<le> x) \<longrightarrow> 0 \<le> ind_value (calculate_volatility_index xs)) \<and>
   (2 \<le> length xs \<and> (\<forall>x\<in>set xs. x = c) \<and> c \<noteq> 0 \<longrightarrow>
      calculate_volatility_index xs = \<lparr>ind_value = 0, ind_status = ''stable''\<rparr>)"
proof (intro conjI impI)
  assume "0 \<le> sum_list xs / real (length xs)"
  then have "0 \<le> np_mean xs" by (simp only: np_mean_def)
  then show "0 \<le> ind_value (calculate_volatility_index xs)"
    by (rule volatility_nonneg_mean)
next
  assume "\<forall>x\<in>set xs. 0 \<le> x"
  then have "0 \<le> sum_list xs" by (simp add: sum_list_nonneg)
  then have "0 \<le> np_mean xs" by (simp add: np_mean_def)
  then show "0 \<le> ind_value (calculate_volatility_index xs)"
    by (rule volatility_nonneg_mean)
next
  assume a: "2 \<le> length xs \<and> (\<forall>x\<in>set xs. x = c) \<and> c \<noteq> 0"
  then have ne: "xs \<noteq> []" by auto
  from a have all: "\<forall>x\<in>set xs. x = c" by simp
  from all ne have m: "np_mean xs = c" by (rule np_mean_const)
  from all ne have s: "np_std xs = 0" by (rule np_std_const)
  from a m have "2 \<le> length xs" "np_mean xs \<noteq> 0" by simp_all
  then show "calculate_volatility_index xs = \<lparr>ind_value = 0, ind_status = ''stable''\<rparr>"
    by (simp add: volatility_fit s py_round_zero)
qed

theorem volatility_nonneg_constant_witness:
  "0 \<le> ind_value (calculate_volatility_index [1, 2]) \<and>
   calculate_volatility_index [100, 100, 100, 100] = \<lparr>ind_value = 0, ind_status = ''stable''\<rparr> \<and>
   calculate_volatility_index [- 3, - 3] = \<lparr>ind_value = 0, ind_status = ''stable''\<rparr>"
  using volatility_nonneg_constant [of "[1, 2]"]
    volatility_nonneg_constant [of "[100, 100, 100, 100]" 100]
    volatility_nonneg_constant [of "[- 3, - 3]" "- 3"]
  by simp

section \<open>Trend forecast\<close>

lemma length_np_arange: "length (np_arange a b) = nat (b - a)"
  by (simp add: np_arange_def)

lemma nth_np_arange: "i < nat (b - a) \<Longrightarrow> np_arange a b ! i = real_of_int a + real i"
  by (simp add: np_arange_def)

lemma sum_list_np_arange:
  "sum_list (map f (np_arange 0 (int n))) = (\<Sum>i<n. f (real i))"
proof -
  have "sum_list (map f (np_arange 0 (int n))) = (\<Sum>i = 0..<n. map f (np_arange 0 (int n)) ! i)"
    by (simp add: sum_list_sum_nth length_np_arange)
  also have "\<dots> = (\<Sum>i = 0..<n. f (real i))"
    by (rule sum.cong) (simp_all add: length_np_arange nth_np_arange)
  finally show ?thesis by (simp add: atLeast0LessThan)
qed

lemma sum_list_zip_np_arange:
  "sum_list (map (\<lambda>(x, y). g x y) (zip (np_arange 0 (int (length ys))) ys))
     = (\<Sum>i<length ys. g (real i) (ys ! i))"
proof -
  let ?zs = "map (\<lambda>(x, y). g x y) (zip (np_arange 0 (int (length ys))) ys)"
  have len: "length ?zs = length ys" by (simp add: length_np_arange)
  have "sum_list ?zs = (\<Sum>i = 0..<length ys. ?zs ! i)"
    using sum_list_sum_nth [of ?zs] by (simp only: len)
  also have "\<dots> = (\<Sum>i = 0..<length ys. g (real i) (ys ! i))"
    by (rule sum.cong) (simp_all add: length_np_arange nth_np_arange)
  finally show ?thesis by (simp add: atLeast0LessThan)
qed

lemma sum_list_nth_lessThan: "sum_list (map f ys) = (\<Sum>i<length ys. f (ys ! i))"
  using sum_list_sum_nth [of "map f ys"] by (simp add: atLeast0LessThan)

lemma np_mean_nth: "np_mean ys = (\<Sum>i<length ys. ys ! i) / real (length ys)"
  using sum_list_nth_lessThan [of "\<lambda>x. x" ys] by (simp add: np_mean_def)

lemma np_mean_np_arange:
  "np_mean (np_arange 0 (int n)) = (\<Sum>i<n. real i) / real n"
  using sum_list_np_arange [of "\<lambda>x. x" n] by (simp add: np_mean_def length_np_arange)

lemma denominator_pos:
  assumes "2 \<le> n"
  shows "(\<Sum>i<n. (real i - m)\<^sup>2) \<noteq> 0"
proof
  assume "(\<Sum>i<n. (real i - m)\<^sup>2) = 0"
  then have "\<forall>i\<in>{..<n}. (real i - m)\<^sup>2 = 0"
    by (simp add: sum_nonneg_eq_0_iff)
  with assms have "(real 0 - m)\<^sup>2 = 0" "(real 1 - m)\<^sup>2 = 0"
    by (metis lessThan_iff less_le_trans zero_less_numeral, metis lessThan_iff less_le_trans one_less_numeral_iff semiring_norm(76))
  then show False by simp
qed


lemma forecast_fit:
  fixes ys :: "real list" and p :: int
  assumes n: "10 \<le> length ys"
  defines "xm \<equiv> (\<Sum>i<length ys. real i) / real (length ys)"
    and "ym \<equiv> (\<Sum>i<length ys. ys ! i) / real (length ys)"
  defines "sl \<equiv> (\<Sum>i<length ys. (real i - xm) * (ys ! i - ym)) / (\<Sum>i<length ys. (real i - xm)\<^sup>2)"
  defines "ic \<equiv> ym - sl * xm"
  defines "ss_res \<equiv> sum_list (map (\<lambda>(yv, yp). (yv - yp)\<^sup>2)
      (zip ys (map (\<lambda>x. sl * x + ic) (np_arange 0 (int (length ys))))))"
    and "ss_tot \<equiv> (\<Sum>i<length ys. (ys ! i - ym)\<^sup>2)"
  shows "simple_linear_forecast ys p =
    Inr \<lparr>slope = sl, intercept = ic,
         r_squared = (if ss_tot > 0 then 1 - ss_res / ss_tot else 0),
         forecast = map (\<lambda>x. sl * x + ic) (np_arange (int (length ys)) (int (length ys) + p)),
         trend = (if sl > 0 then ''increasing'' else if sl < 0 then ''decreasing'' else ''flat'')\<rparr>"
proof -
  have a: "\<not> length ys < 10" using n by simp
  have d: "(\<Sum>i<length ys. (real i - xm)\<^sup>2) \<noteq> 0"
    using n by (intro denominator_pos) simp
  have X: "np_mean (np_arange 0 (int (length ys))) = xm"
    by (simp add: np_mean_np_arange xm_def)
  have Y: "np_mean ys = ym"
    by (simp add: np_mean_nth ym_def)
  have num: "sum_list (map (\<lambda>(x, yv). (x - xm) * (yv - ym)) (zip (np_arange 0 (int (length ys))) ys))
      = (\<Sum>i<length ys. (real i - xm) * (ys ! i - ym))"
    by (rule sum_list_zip_np_arange)
  have den: "sum_list (map (\<lambda>x. (x - xm)\<^sup>2) (np_arange 0 (int (length ys))))
      = (\<Sum>i<length ys. (real i - xm)\<^sup>2)"
    by (rule sum_list_np_arange)
  have tot: "sum_list (map (\<lambda>yv. (yv - ym)\<^sup>2) ys) = ss_tot"
    unfolding ss_tot_def by (rule sum_list_nth_lessThan)
  show ?thesis
    unfolding simple_linear_forecast_def Let_def X Y num den tot
    using a d by (simp add: sl_def ic_def ss_res_def)
qed


lemmas forecast_eval =
  simple_linear_forecast_def np_arange_def np_mean_def Let_def upto.simps power2_eq_square
  periods_default_def

text \<open>
  Claim C4.  A series with fewer than 10 observations yields the insufficient-data signal
  and no slope or intercept; a series with at least 10 is always fitted.  Whenever a fit
  is returned, over the index positions \<open>0, ..., n - 1\<close> the slope is
  \<open>\<Sum>(x - x_mean)(y - y_mean) / \<Sum>(x - x_mean)\<^sup>2\<close>, the intercept is
  \<open>y_mean - slope * x_mean\<close>, and the reported coefficient of determination is 0 when the
  total sum of squares is 0.
\<close>

theorem forecast_least_squares:
  "(length ys < 10 \<longrightarrow>
      simple_linear_forecast ys p = Inl ''Insufficient data for forecasting'') \<and>
   (10 \<le> length ys \<longrightarrow> \<not> isl (simple_linear_forecast ys p)) \<and>
   (\<forall>r. simple_linear_forecast ys p = Inr r \<longrightarrow>
      (let n = length ys;
           x_mean = (\<Sum>i<n. real i) / real n;
           y_mean = (\<Sum>i<n. ys ! i) / real n
       in 10 \<le> n \<and>
          slope r = (\<Sum>i<n. (real i - x_mean) * (ys ! i - y_mean)) / (\<Sum>i<n. (real i - x_mean)\<^sup>2) \<and>
          intercept r = y_mean - slope r * x_mean \<and>
          ((\<Sum>i<n. (ys ! i - y_mean)\<^sup>2) = 0 \<longrightarrow> r_squared r = 0)))"
proof (cases "length ys < 10")
  case True
  then show ?thesis by (simp add: simple_linear_forecast_def)
next
  case False
  then have n: "10 \<le> length ys" by simp
  show ?thesis
    unfolding forecast_fit [OF n] using n by (simp add: Let_def)
qed

theorem forecast_least_squares_witness:
  "simple_linear_forecast [1, 2, 3] 30 = Inl ''Insufficient data for forecasting'' \<and>
   \<not> isl (simple_linear_forecast [5, 8, 11, 14, 17, 20, 23, 26, 29, 32] 30) \<and>
   r_squared (projr (simple_linear_forecast [7, 7, 7, 7, 7, 7, 7, 7, 7, 7] 30)) = 0"
proof -
  have tot: "(\<Sum>i<10. ([7, 7, 7, 7, 7, 7, 7, 7, 7, 7::real] ! i
      - (\<Sum>i<10. [7, 7, 7, 7, 7, 7, 7, 7, 7, 7::real] ! i) / 10)\<^sup>2) = 0"
    by (simp add: eval_nat_numeral lessThan_Suc)
  have c: "\<not> isl (simple_linear_forecast [7, 7, 7, 7, 7, 7, 7, 7, 7, 7] 30)"
    using forecast_least_squares [of "[7, 7, 7, 7, 7, 7, 7, 7, 7, 7]" 30] by simp
  then have "simple_linear_forecast [7, 7, 7, 7, 7, 7, 7, 7, 7, 7] 30
      = Inr (projr (simple_linear_forecast [7, 7, 7, 7, 7, 7, 7, 7, 7, 7] 30))"
    by simp
  then have "r_squared (projr (simple_linear_forecast [7, 7, 7, 7, 7, 7, 7, 7, 7, 7] 30)) = 0"
    using forecast_least_squares [of "[7, 7, 7, 7, 7, 7, 7, 7, 7, 7]" 30] tot
    by (simp add: Let_def)
  then show ?thesis
    using forecast_least_squares [of "[1, 2, 3]" 30]
      forecast_least_squares [of "[5, 8, 11, 14, 17, 20, 23, 26, 29, 32]" 30]
    by simp
qed

lemma forecast_shape:
  assumes "simple_linear_forecast ys p = Inr r"
  shows "trend r = (if slope r > 0 then ''increasing''
                    else if slope r < 0 then ''decreasing'' else ''flat'') \<and>
         forecast r = map (\<lambda>x. slope r * x + intercept r)
                        (np_arange (int (length ys)) (int (length ys) + p))"
  using assms unfolding simple_linear_forecast_def Let_def
  by (auto split: if_splits)

text \<open>
  Claim C5.  For every fitted forecast the trend label follows the sign of the slope:
  increasing when it is positive, decreasing when it is negative, flat exactly when it is
  0; the projection has exactly 30 values, the fitted line at the positions
  \<open>n, ..., n + 29\<close>.
\<close>

theorem forecast_trend_horizon:
  "simple_linear_forecast ys periods_default = Inr r \<longrightarrow>
     (0 < slope r \<longrightarrow> trend r = ''increasing'') \<and>
     (slope r < 0 \<longrightarrow> trend r = ''decreasing'') \<and>
     (trend r = ''flat'' \<longleftrightarrow> slope r = 0) \<and>
     length (forecast r) = 30 \<and>
     (\<forall>k<30. forecast r ! k = slope r * real (length ys + k) + intercept r)"
proof
  assume "simple_linear_forecast ys periods_default = Inr r"
  then have t: "trend r = (if slope r > 0 then ''increasing''
                    else if slope r < 0 then ''decreasing'' else ''flat'')"
    and f: "forecast r = map (\<lambda>x. slope r * x + intercept r)
                        (np_arange (int (length ys)) (int (length ys) + periods_default))"
    using forecast_shape [of ys periods_default r] by simp_all
  have len: "length (forecast r) = 30"
    unfolding f by (simp add: length_np_arange periods_default_def)
  have nth: "\<forall>k<30. forecast r ! k = slope r * real (length ys + k) + intercept r"
    unfolding f by (simp add: length_np_arange nth_np_arange periods_default_def)
  from t have "(0 < slope r \<longrightarrow> trend r = ''increasing'') \<and>
     (slope r < 0 \<longrightarrow> trend r = ''decreasing'') \<and>
     (trend r = ''flat'' \<longleftrightarrow> slope r = 0)"
    by simp
  with len nth show "(0 < slope r \<longrightarrow> trend r = ''increasing'') \<and>
     (slope r < 0 \<longrightarrow> trend r = ''decreasing'') \<and>
     (trend r = ''flat'' \<longleftrightarrow> slope r = 0) \<and>
     length (forecast r) = 30 \<and>
     (\<forall>k<30. forecast r ! k = slope r * real (length ys + k) + intercept r)"
    by blast
qed

theorem forecast_trend_horizon_witness:
  "trend (projr (simple_linear_forecast [5, 8, 11, 14, 17, 20, 23, 26, 29, 32] periods_default))
     = ''increasing'' \<and>
   trend (projr (simple_linear_forecast [32, 29, 26, 23, 20, 17, 14, 11, 8, 5] periods_default))
     = ''decreasing'' \<and>
   trend (projr (simple_linear_forecast [7, 7, 7, 7, 7, 7, 7, 7, 7, 7] periods_default))
     = ''flat'' \<and>
   length (forecast (projr (simple_linear_forecast [5, 8, 11, 14, 17, 20, 23, 26, 29, 32]
     periods_default))) = 30 \<and>
   forecast (projr (simple_linear_forecast [5, 8, 11, 14, 17, 20, 23, 26, 29, 32]
     periods_default)) ! 0 = 35"
proof -
  have up: "slope (projr (simple_linear_forecast [5, 8, 11, 14, 17, 20, 23, 26, 29, 32] periods_default)) = 3"
    "intercept (projr (simple_linear_forecast [5, 8, 11, 14, 17, 20, 23, 26, 29, 32] periods_default)) = 5"
    "\<not> isl (simple_linear_forecast [5, 8, 11, 14, 17, 20, 23, 26, 29, 32] periods_default)"
    by (simp_all add: forecast_eval)
  have down: "slope (projr (simple_linear_forecast [32, 29, 26, 23, 20, 17, 14, 11, 8, 5] periods_default)) = - 3"
    "\<not> isl (simple_linear_forecast [32, 29, 26, 23, 20, 17, 14, 11, 8, 5] periods_default)"
    by (simp_all add: forecast_eval)
  have level: "slope (projr (simple_linear_forecast [7, 7, 7, 7, 7, 7, 7, 7, 7, 7] periods_default)) = 0"
    "\<not> isl (simple_linear_forecast [7, 7, 7, 7, 7, 7, 7, 7, 7, 7] periods_default)"
    by (simp_all add: forecast_eval)
  show ?thesis
    using forecast_trend_horizon [of "[5, 8, 11, 14, 17, 20, 23, 26, 29, 32]"
        "projr (simple_linear_forecast [5, 8, 11, 14, 17, 20, 23, 26, 29, 32] periods_default)"]
      forecast_trend_horizon [of "[32, 29, 26, 23, 20, 17, 14, 11, 8, 5]"
        "projr (simple_linear_forecast [32, 29, 26, 23, 20, 17, 14, 11, 8, 5] periods_default)"]
      forecast_trend_horizon [of "[7, 7, 7, 7, 7, 7, 7, 7, 7, 7]"
        "projr (simple_linear_forecast [7, 7, 7, 7, 7, 7, 7, 7, 7, 7] periods_default)"]
      up down level
    by simp
qed

section \<open>Correlation labels\<close>

lemma title_strengths:
  "title ''negligible'' = ''Negligible''" "title ''weak'' = ''Weak''"
  "title ''moderate'' = ''Moderate''" "title ''strong'' = ''Strong''"
  "title ''very strong'' = ''Very Strong''"
  by code_simp+

text \<open>
  Claim C10.  For every non-NaN coefficient \<open>r\<close> the label is the strength band of \<open>\<bar>r\<bar>\<close>
  (thresholds 0.1, 0.3, 0.5, 0.7), title-cased, followed by the direction, which is
  negative whenever \<open>r \<le> 0\<close> and positive only when \<open>r > 0\<close>; \<open>r = 0\<close> is labelled
  negative.
\<close>

theorem interpret_correlation_labels:
  "interpret_correlation (Some r) =
     (if \<bar>r\<bar> < 0.1 then ''Negligible''
      else if \<bar>r\<bar> < 0.3 then ''Weak''
      else if \<bar>r\<bar> < 0.5 then ''Moderate''
      else if \<bar>r\<bar> < 0.7 then ''Strong''
      else ''Very Strong'') @ '' '' @
     (if r \<le> 0 then ''negative'' else ''positive'') @ '' correlation'' \<and>
   interpret_correlation (Some 0) = ''Negligible negative correlation''"
proof -
  have d: "(if r > 0 then ''positive'' else ''negative'') = (if r \<le> 0 then ''negative'' else ''positive'')"
    by simp
  have g: "interpret_correlation (Some r) =
     (if \<bar>r\<bar> < 0.1 then ''Negligible''
      else if \<bar>r\<bar> < 0.3 then ''Weak''
      else if \<bar>r\<bar> < 0.5 then ''Moderate''
      else if \<bar>r\<bar> < 0.7 then ''Strong''
      else ''Very Strong'') @ '' '' @
     (if r \<le> 0 then ''negative'' else ''positive'') @ '' correlation''"
    unfolding interpret_correlation_def Let_def option.case d
    by (simp only: title_strengths if_distrib [of title] if_distrib [of "\<lambda>s. s @ t" for t])
  have z: "interpret_correlation (Some 0) = ''Negligible negative correlation''"
    by (simp add: interpret_correlation_def title_strengths)
  from g z show ?thesis by (rule conjI)
qed

section \<open>Pairwise correlation\<close>

lemma select_mask_joint:
  "select_mask (to_numeric c1)
      (map (\<lambda>(m1, m2). m1 \<and> m2) (zip (notna (to_numeric c1)) (notna (to_numeric c2))))
     = map fst [(x, y). (Numeric x, Numeric y) \<leftarrow> zip c1 c2] \<and>
   select_mask (to_numeric c2)
      (map (\<lambda>(m1, m2). m1 \<and> m2) (zip (notna (to_numeric c1)) (notna (to_numeric c2))))
     = map snd [(x, y). (Numeric x, Numeric y) \<leftarrow> zip c1 c2]"
proof (induction c1 arbitrary: c2)
  case Nil
  then show ?case by (simp add: select_mask_def to_numeric_def notna_def List.map_filter_simps)
next
  case (Cons a c1)
  show ?case
  proof (cases c2)
    case Nil
    then show ?thesis by (simp add: select_mask_def to_numeric_def notna_def List.map_filter_simps)
  next
    case (Cons b c2')
    with Cons.IH [of c2'] show ?thesis
      by (cases a; cases b)
        (simp_all add: select_mask_def to_numeric_def notna_def List.map_filter_simps)
  qed
qed


lemma series_corr_constant:
  assumes "\<forall>x\<in>set a. x = c"
  shows "series_corr a b = None"
proof -
  have "sum_list (map (\<lambda>x. (x - np_mean a)\<^sup>2) a) = 0"
  proof (cases "a = []")
    case True
    then show ?thesis by simp
  next
    case False
    with assms have "np_mean a = c" by (rule np_mean_const)
    with assms show ?thesis by (intro sum_list_all_zero) simp
  qed
  then show ?thesis by (simp add: series_corr_def Let_def)
qed

lemma series_corr_constant2:
  assumes "\<forall>y\<in>set b. y = c"
  shows "series_corr a b = None"
proof -
  have "sum_list (map (\<lambda>y. (y - np_mean b)\<^sup>2) b) = 0"
  proof (cases "b = []")
    case True
    then show ?thesis by simp
  next
    case False
    with assms have "np_mean b = c" by (rule np_mean_const)
    with assms show ?thesis by (intro sum_list_all_zero) simp
  qed
  then show ?thesis by (simp add: series_corr_def Let_def)
qed

lemma bivariate_correlation_rows:
  assumes "map_of df col1 = Some c1" "map_of df col2 = Some c2"
  defines "rows \<equiv> [(x, y). (Numeric x, Numeric y) \<leftarrow> zip c1 c2]"
  shows "bivariate_correlation df col1 col2 =
     (if length rows < 2 then Inl ''Insufficient data''
      else Inr \<lparr>column1 = col1, column2 = col2,
                correlation = (case series_corr (map fst rows) (map snd rows) of
                                 Some r \<Rightarrow> r | None \<Rightarrow> 0),
                sample_size = length rows,
                interpretation_label =
                  interpret_correlation (series_corr (map fst rows) (map snd rows))\<rparr>)"
  using assms(1,2) select_mask_joint [of c1 c2]
  by (simp add: bivariate_correlation_def Let_def rows_def)

text \<open>
  Claim C6.  For a table and two column names present in it, the correlator keeps exactly
  the row positions at which both cells are numeric, the same rows for both series; with
  fewer than 2 such rows it signals insufficient data; otherwise it reports the number of
  kept rows and the Pearson coefficient of the kept rows, and when that coefficient is
  undefined, as it is when either kept series has zero variance, it reports the value 0
  in place of NaN.
\<close>

theorem bivariate_correlation_joint:
  "map_of df col1 = Some c1 \<and> map_of df col2 = Some c2 \<longrightarrow>
   (let rows = [(x, y). (Numeric x, Numeric y) \<leftarrow> zip c1 c2];
        res = bivariate_correlation df col1 col2
    in (length rows < 2 \<longrightarrow> res = Inl ''Insufficient data'') \<and>
       (2 \<le> length rows \<longrightarrow>
          \<not> isl res \<and> sample_size (projr res) = length rows \<and>
          (series_corr (map fst rows) (map snd rows) = None \<longrightarrow>
             correlation (projr res) = 0 \<and>
             interpretation_label (projr res) = ''No correlation calculated'') \<and>
          (\<forall>v. series_corr (map fst rows) (map snd rows) = Some v \<longrightarrow>
             correlation (projr res) = v \<and>
             interpretation_label (projr res) = interpret_correlation (Some v)) \<and>
          ((\<exists>c. \<forall>p\<in>set rows. fst p = c) \<or> (\<exists>c. \<forall>p\<in>set rows. snd p = c) \<longrightarrow>
             correlation (projr res) = 0)))"
proof
  assume a: "map_of df col1 = Some c1 \<and> map_of df col2 = Some c2"
  define rows where "rows = [(x, y). (Numeric x, Numeric y) \<leftarrow> zip c1 c2]"
  define res where "res = bivariate_correlation df col1 col2"
  have res: "res = (if length rows < 2 then Inl ''Insufficient data''
      else Inr \<lparr>column1 = col1, column2 = col2,
                correlation = (case series_corr (map fst rows) (map snd rows) of
                                 Some r \<Rightarrow> r | None \<Rightarrow> 0),
                sample_size = length rows,
                interpretation_label =
                  interpret_correlation (series_corr (map fst rows) (map snd rows))\<rparr>)"
    unfolding res_def rows_def using a by (intro bivariate_correlation_rows) simp_all
  have const: "series_corr (map fst rows) (map snd rows) = None"
    if "(\<exists>c. \<forall>p\<in>set rows. fst p = c) \<or> (\<exists>c. \<forall>p\<in>set rows. snd p = c)"
    using that
  proof
    assume "\<exists>c. \<forall>p\<in>set rows. fst p = c"
    then obtain c where "\<forall>x\<in>set (map fst rows). x = c" by auto
    then show ?thesis by (rule series_corr_constant)
  next
    assume "\<exists>c. \<forall>p\<in>set rows. snd p = c"
    then obtain c where "\<forall>x\<in>set (map snd rows). x = c" by auto
    then show ?thesis by (rule series_corr_constant2)
  qed
  have "(length rows < 2 \<longrightarrow> res = Inl ''Insufficient data'') \<and>
       (2 \<le> length rows \<longrightarrow>
          \<not> isl res \<and> sample_size (projr res) = length rows \<and>
          (series_corr (map fst rows) (map snd rows) = None \<longrightarrow>
             correlation (projr res) = 0 \<and>
             interpretation_label (projr res) = ''No correlation calculated'') \<and>
          (\<forall>v. series_corr (map fst rows) (map snd rows) = Some v \<longrightarrow>
             correlation (projr res) = v \<and>
             interpretation_label (projr res) = interpret_correlation (Some v)) \<and>
          ((\<exists>c. \<forall>p\<in>set rows. fst p = c) \<or> (\<exists>c. \<forall>p\<in>set rows. snd p = c) \<longrightarrow>
             correlation (projr res) = 0))"
    using const by (auto simp: res interpret_correlation_def)
  then show "let rows = [(x, y). (Numeric x, Numeric y) \<leftarrow> zip c1 c2];
        res = bivariate_correlation df col1 col2
    in (length rows < 2 \<longrightarrow> res = Inl ''Insufficient data'') \<and>
       (2 \<le> length rows \<longrightarrow>
          \<not> isl res \<and> sample_size (projr res) = length rows \<and>
          (series_corr (map fst rows) (map snd rows) = None \<longrightarrow>
             correlation (projr res) = 0 \<and>
             interpretation_label (projr res) = ''No correlation calculated'') \<and>
          (\<forall>v. series_corr (map fst rows) (map snd rows) = Some v \<longrightarrow>
             correlation (projr res) = v \<and>
             interpretation_label (projr res) = interpret_correlation (Some v)) \<and>
          ((\<exists>c. \<forall>p\<in>set rows. fst p = c) \<or> (\<exists>c. \<forall>p\<in>set rows. snd p = c) \<longrightarrow>
             correlation (projr res) = 0))"
    unfolding Let_def rows_def res_def .
qed


theorem bivariate_correlation_joint_witness:
  "bivariate_correlation
     [(''a'', [Numeric 1, NonNumeric]), (''b'', [Numeric 5, Numeric 5])] ''a'' ''b''
     = Inl ''Insufficient data'' \<and>
   correlation (projr (bivariate_correlation
     [(''a'', [Numeric 4, Numeric 4]), (''b'', [Numeric 1, Numeric 2])] ''a'' ''b'')) = 0 \<and>
   sample_size (projr (bivariate_correlation
     [(''a'', [Numeric 1, NonNumeric, Numeric 2, Numeric 3]),
      (''b'', [Numeric 3, Numeric 9, Numeric 2, Numeric 1])] ''a'' ''b'')) = 3 \<and>
   correlation (projr (bivariate_correlation
     [(''a'', [Numeric 1, NonNumeric, Numeric 2, Numeric 3]),
      (''b'', [Numeric 3, Numeric 9, Numeric 2, Numeric 1])] ''a'' ''b'')) = - 1"
proof -
  have c: "series_corr [1, 2, 3] [3, 2, 1] = Some (- 1)"
    by (simp add: series_corr_def np_mean_def Let_def power2_eq_square)
  have one: "bivariate_correlation
     [(''a'', [Numeric 1, NonNumeric]), (''b'', [Numeric 5, Numeric 5])] ''a'' ''b''
     = Inl ''Insufficient data''"
    using bivariate_correlation_joint [of "[(''a'', [Numeric 1, NonNumeric]), (''b'', [Numeric 5, Numeric 5])]"
        "''a''" "[Numeric 1, NonNumeric]" "''b''" "[Numeric 5, Numeric 5]"]
    by (simp add: Let_def)
  have two: "correlation (projr (bivariate_correlation
     [(''a'', [Numeric 4, Numeric 4]), (''b'', [Numeric 1, Numeric 2])] ''a'' ''b'')) = 0"
    using bivariate_correlation_joint [of "[(''a'', [Numeric 4, Numeric 4]), (''b'', [Numeric 1, Numeric 2])]"
        "''a''" "[Numeric 4, Numeric 4]" "''b''" "[Numeric 1, Numeric 2]"]
    by (simp add: Let_def)
  have three: "sample_size (projr (bivariate_correlation
     [(''a'', [Numeric 1, NonNumeric, Numeric 2, Numeric 3]),
      (''b'', [Numeric 3, Numeric 9, Numeric 2, Numeric 1])] ''a'' ''b'')) = 3 \<and>
   correlation (projr (bivariate_correlation
     [(''a'', [Numeric 1, NonNumeric, Numeric 2, Numeric 3]),
      (''b'', [Numeric 3, Numeric 9, Numeric 2, Numeric 1])] ''a'' ''b'')) = - 1"
    using bivariate_correlation_joint [of "[(''a'', [Numeric 1, NonNumeric, Numeric 2, Numeric 3]),
      (''b'', [Numeric 3, Numeric 9, Numeric 2, Numeric 1])]"
        "''a''" "[Numeric 1, NonNumeric, Numeric 2, Numeric 3]" "''b''"
        "[Numeric 3, Numeric 9, Numeric 2, Numeric 1]"] c
    by (simp add: Let_def)
  from one two three show ?thesis by blast
qed

section \<open>Top correlations\<close>

lemma pairs_inner_append:
  "pairs_inner loc i col1 js acc =
     acc @ concat (map (\<lambda>(j, col2). if i < j
        then (case loc col1 col2 of None \<Rightarrow> []
              | Some r \<Rightarrow> [\<lparr>pair = col1 @ '' vs '' @ col2, pair_correlation = r\<rparr>])
        else []) js)"
  by (induction js arbitrary: acc) (auto split: option.splits)

lemma pairs_outer_append:
  "pairs_outer loc cols is acc =
     acc @ concat (map (\<lambda>(i, col1).
        concat (map (\<lambda>(j, col2). if i < j
          then (case loc col1 col2 of None \<Rightarrow> []
                | Some r \<Rightarrow> [\<lparr>pair = col1 @ '' vs '' @ col2, pair_correlation = r\<rparr>])
          else []) (enumerate 0 cols))) is)"
  by (induction "is" arbitrary: acc) (auto simp: pairs_inner_append)

lemma enumerate_nth: "enumerate 0 xs = map (\<lambda>i. (i, xs ! i)) [0..<length xs]"
  by (rule nth_equalityI) (simp_all add: nth_enumerate_eq)

lemma concat_upper:
  assumes "i < n"
  shows "concat (map (\<lambda>j. if i < j then g j else []) [0..<n]) = concat (map g [Suc i..<n])"
proof -
  have split: "[0..<n] = [0..<Suc i] @ [Suc i..<n]"
    using assms upt_add_eq_append [of 0 "Suc i" "n - Suc i"] by simp
  have low: "concat (map (\<lambda>j. if i < j then g j else []) [0..<Suc i]) = []"
    by (simp del: upt_Suc)
  have high: "map (\<lambda>j. if i < j then g j else []) [Suc i..<n] = map g [Suc i..<n]"
    by (rule map_cong) auto
  show ?thesis
    unfolding split map_append concat_append low high by simp
qed

lemma pairs_candidates:
  "pairs_outer loc cols (enumerate 0 cols) [] =
     [\<lparr>pair = cols ! i @ '' vs '' @ cols ! j, pair_correlation = r\<rparr>.
        i \<leftarrow> [0..<length cols], j \<leftarrow> [Suc i..<length cols],
        Some r \<leftarrow> [loc (cols ! i) (cols ! j)]]"
proof -
  let ?e = "\<lambda>i j. case loc (cols ! i) (cols ! j) of None \<Rightarrow> []
      | Some r \<Rightarrow> [\<lparr>pair = cols ! i @ '' vs '' @ cols ! j, pair_correlation = r\<rparr>]"
  have "pairs_outer loc cols (enumerate 0 cols) [] =
     concat (map (\<lambda>i. concat (map (\<lambda>j. if i < j then ?e i j else [])
        [0..<length cols])) [0..<length cols])"
    by (simp add: pairs_outer_append enumerate_nth comp_def)
  also have "\<dots> = concat (map (\<lambda>i. concat (map (\<lambda>j. ?e i j)
        [Suc i..<length cols])) [0..<length cols])"
    by (intro arg_cong [where f = concat] map_cong refl concat_upper) simp
  also have "\<dots> = [\<lparr>pair = cols ! i @ '' vs '' @ cols ! j, pair_correlation = r\<rparr>.
        i \<leftarrow> [0..<length cols], j \<leftarrow> [Suc i..<length cols],
        Some r \<leftarrow> [loc (cols ! i) (cols ! j)]]"
    by simp
  finally show ?thesis .
qed

lemma take_sorted_top:
  fixes f :: "'a \<Rightarrow> real"
  shows "sorted_wrt (\<lambda>p q. f q \<le> f p) (take k (sort_key (\<lambda>x. - f x) xs))"
    and "length (take k (sort_key (\<lambda>x. - f x) xs)) = min k (length xs)"
    and "set (take k (sort_key (\<lambda>x. - f x) xs)) \<subseteq> set xs"
    and "\<forall>q\<in>set xs. q \<in> set (take k (sort_key (\<lambda>x. - f x) xs)) \<or>
           (\<forall>p\<in>set (take k (sort_key (\<lambda>x. - f x) xs)). f q \<le> f p)"
proof -
  define s where "s = sort_key (\<lambda>x. - f x) xs"
  have "sorted (map (\<lambda>x. - f x) s)" by (simp add: s_def)
  then have sw: "sorted_wrt (\<lambda>p q. f q \<le> f p) s"
    by (simp add: sorted_map)
  then show "sorted_wrt (\<lambda>p q. f q \<le> f p) (take k (sort_key (\<lambda>x. - f x) xs))"
    unfolding s_def by (rule sorted_wrt_take)
  show "length (take k (sort_key (\<lambda>x. - f x) xs)) = min k (length xs)"
    by (simp add: min.commute)
  have "set (take k s) \<subseteq> set s" by (rule set_take_subset)
  then show "set (take k (sort_key (\<lambda>x. - f x) xs)) \<subseteq> set xs" by (simp add: s_def)
  have "\<forall>q\<in>set xs. q \<in> set (take k s) \<or> (\<forall>p\<in>set (take k s). f q \<le> f p)"
  proof
    fix q assume "q \<in> set xs"
    then have "q \<in> set s" by (simp add: s_def)
    then have "q \<in> set (take k s) \<union> set (drop k s)"
      by (metis append_take_drop_id set_append)
    then have "q \<in> set (take k s) \<or> q \<in> set (drop k s)" by blast
    moreover have "sorted_wrt (\<lambda>p q. f q \<le> f p) (take k s @ drop k s)"
      using sw by simp
    then have "\<forall>p\<in>set (take k s). \<forall>q\<in>set (drop k s). f q \<le> f p"
      unfolding sorted_wrt_append by blast
    ultimately show "q \<in> set (take k s) \<or> (\<forall>p\<in>set (take k s). f q \<le> f p)"
      by blast
  qed
  then show "\<forall>q\<in>set xs. q \<in> set (take k (sort_key (\<lambda>x. - f x) xs)) \<or>
           (\<forall>p\<in>set (take k (sort_key (\<lambda>x. - f x) xs)). f q \<le> f p)"
    unfolding s_def .
qed

text \<open>
  Claim C7.  For every correlation matrix and every \<open>N \<ge> 0\<close>, the candidates of the ranking
  are the entries at column positions \<open>i < j\<close> whose correlation is defined, one per
  position pair (no self pairs, no pair twice); the result is the first \<open>N\<close> of the
  candidates sorted by absolute correlation in descending order: it is sorted so, has
  \<open>min N (number of candidates)\<close> entries, all of them candidates, and every candidate
  left out is no stronger than any entry returned.  The default \<open>N\<close> is 5.
\<close>

theorem extract_top_correlations_ranking:
  "0 \<le> n \<longrightarrow>
   (let cands = [\<lparr>pair = cols ! i @ '' vs '' @ cols ! j, pair_correlation = r\<rparr>.
                   i \<leftarrow> [0..<length cols], j \<leftarrow> [Suc i..<length cols],
                   Some r \<leftarrow> [loc (cols ! i) (cols ! j)]];
        top = extract_top_correlations (cols, loc) n
    in top = take (nat n) (sort_key (\<lambda>x. - \<bar>pair_correlation x\<bar>) cands) \<and>
       sorted_wrt (\<lambda>p q. \<bar>pair_correlation q\<bar> \<le> \<bar>pair_correlation p\<bar>) top \<and>
       length top = min (nat n) (length cands) \<and>
       set top \<subseteq> set cands \<and>
       (\<forall>q\<in>set cands. q \<in> set top \<or>
           (\<forall>p\<in>set top. \<bar>pair_correlation q\<bar> \<le> \<bar>pair_correlation p\<bar>)) \<and>
       extract_top_correlations (cols, loc) n_default
         = take 5 (sort_key (\<lambda>x. - \<bar>pair_correlation x\<bar>) cands))"
proof
  assume n: "0 \<le> n"
  define cands where "cands = [\<lparr>pair = cols ! i @ '' vs '' @ cols ! j, pair_correlation = r\<rparr>.
                   i \<leftarrow> [0..<length cols], j \<leftarrow> [Suc i..<length cols],
                   Some r \<leftarrow> [loc (cols ! i) (cols ! j)]]"
  define top where "top = extract_top_correlations (cols, loc) n"
  have pc: "pairs_outer loc cols (enumerate 0 cols) [] = cands"
    unfolding cands_def by (rule pairs_candidates)
  have top: "top = take (nat n) (sort_key (\<lambda>x. - \<bar>pair_correlation x\<bar>) cands)"
    using n by (simp add: top_def extract_top_correlations_def Let_def pc slice_to_def)
  have dflt: "extract_top_correlations (cols, loc) n_default
         = take 5 (sort_key (\<lambda>x. - \<bar>pair_correlation x\<bar>) cands)"
    by (simp add: extract_top_correlations_def Let_def pc slice_to_def n_default_def)
  have "top = take (nat n) (sort_key (\<lambda>x. - \<bar>pair_correlation x\<bar>) cands) \<and>
       sorted_wrt (\<lambda>p q. \<bar>pair_correlation q\<bar> \<le> \<bar>pair_correlation p\<bar>) top \<and>
       length top = min (nat n) (length cands) \<and>
       set top \<subseteq> set cands \<and>
       (\<forall>q\<in>set cands. q \<in> set top \<or>
           (\<forall>p\<in>set top. \<bar>pair_correlation q\<bar> \<le> \<bar>pair_correlation p\<bar>)) \<and>
       extract_top_correlations (cols, loc) n_default
         = take 5 (sort_key (\<lambda>x. - \<bar>pair_correlation x\<bar>) cands)"
    unfolding top
    using take_sorted_top [where f = "\<lambda>x. \<bar>pair_correlation x\<bar>" and k = "nat n" and xs = cands] dflt
    by blast
  then show "let cands = [\<lparr>pair = cols ! i @ '' vs '' @ cols ! j, pair_correlation = r\<rparr>.
                   i \<leftarrow> [0..<length cols], j \<leftarrow> [Suc i..<length cols],
                   Some r \<leftarrow> [loc (cols ! i) (cols ! j)]];
        top = extract_top_correlations (cols, loc) n
    in top = take (nat n) (sort_key (\<lambda>x. - \<bar>pair_correlation x\<bar>) cands) \<and>
       sorted_wrt (\<lambda>p q. \<bar>pair_correlation q\<bar> \<le> \<bar>pair_correlation p\<bar>) top \<and>
       length top = min (nat n) (length cands) \<and>
       set top \<subseteq> set cands \<and>
       (\<forall>q\<in>set cands. q \<in> set top \<or>
           (\<forall>p\<in>set top. \<bar>pair_correlation q\<bar> \<le> \<bar>pair_correlation p\<bar>)) \<and>
       extract_top_correlations (cols, loc) n_default
         = take 5 (sort_key (\<lambda>x. - \<bar>pair_correlation x\<bar>) cands)"
    unfolding Let_def cands_def top_def .
qed


theorem extract_top_correlations_ranking_witness:
  "extract_top_correlations ([''x'', ''y'', ''z''],
      (\<lambda>a b. if a = b then Some 1
             else if a = ''x'' \<and> b = ''y'' \<or> a = ''y'' \<and> b = ''x'' then Some (1 / 2)
             else if a = ''x'' \<and> b = ''z'' \<or> a = ''z'' \<and> b = ''x'' then Some (- 9 / 10)
             else None)) 2
     = [\<lparr>pair = ''x vs z'', pair_correlation = - 9 / 10\<rparr>,
        \<lparr>pair = ''x vs y'', pair_correlation = 1 / 2\<rparr>] \<and>
   extract_top_correlations ([''x'', ''y'', ''z''],
      (\<lambda>a b. if a = b then Some 1
             else if a = ''x'' \<and> b = ''y'' \<or> a = ''y'' \<and> b = ''x'' then Some (1 / 2)
             else if a = ''x'' \<and> b = ''z'' \<or> a = ''z'' \<and> b = ''x'' then Some (- 9 / 10)
             else None)) 1
     = [\<lparr>pair = ''x vs z'', pair_correlation = - 9 / 10\<rparr>]"
proof -
  have u: "[0..<3] = [0, 1, 2]" "[Suc 0..<3] = [1, 2]" "[Suc 1..<3] = [2]" "[Suc 2..<3] = []"
    by (simp_all add: upt_rec)
  show ?thesis
    using extract_top_correlations_ranking [of 2 "[''x'', ''y'', ''z'']"
        "\<lambda>a b. if a = b then Some 1
             else if a = ''x'' \<and> b = ''y'' \<or> a = ''y'' \<and> b = ''x'' then Some (1 / 2)
             else if a = ''x'' \<and> b = ''z'' \<or> a = ''z'' \<and> b = ''x'' then Some (- 9 / 10)
             else None"]
      extract_top_correlations_ranking [of 1 "[''x'', ''y'', ''z'']"
        "\<lambda>a b. if a = b then Some 1
             else if a = ''x'' \<and> b = ''y'' \<or> a = ''y'' \<and> b = ''x'' then Some (1 / 2)
             else if a = ''x'' \<and> b = ''z'' \<or> a = ''z'' \<and> b = ''x'' then Some (- 9 / 10)
             else None"]
    by (simp add: Let_def u)
qed

section \<open>Univariate summary\<close>

lemma dropna_to_numeric: "dropna (to_numeric cells) = [x. Numeric x \<leftarrow> cells]"
proof (induction cells)
  case Nil
  then show ?case by (simp add: dropna_def to_numeric_def List.map_filter_simps)
next
  case (Cons c cells)
  then show ?case
    by (cases c) (simp_all add: dropna_def to_numeric_def List.map_filter_simps)
qed

lemma series_std_population:
  assumes "2 \<le> length xs"
  shows "series_std xs = Some (np_std xs * sqrt (real (length xs) / (real (length xs) - 1)))"
proof -
  define S where "S = sum_list (map (\<lambda>x. (x - series_mean xs)\<^sup>2) xs)"
  define n where "n = real (length xs)"
  have n: "2 \<le> n" using assms by (simp add: n_def)
  have m: "np_mean xs = series_mean xs" by (simp add: np_mean_def series_mean_def)
  have p: "np_std xs = sqrt (S / n)"
    by (simp add: np_std_def m S_def n_def np_mean_def [of "map f xs" for f])
  have e: "(S / n) * (n / (n - 1)) = S / (n - 1)"
    using n by simp
  have "sqrt (S / n) * sqrt (n / (n - 1)) = sqrt ((S / n) * (n / (n - 1)))"
    by (rule real_sqrt_mult [symmetric])
  then have "sqrt (S / n) * sqrt (n / (n - 1)) = sqrt (S / (n - 1))"
    by (simp only: e)
  then have "np_std xs * sqrt (n / (n - 1)) = sqrt (S / (n - 1))"
    by (simp only: p)
  moreover have "series_std xs = Some (sqrt (S / (n - 1)))"
    using assms by (simp add: series_std_def S_def n_def)
  ultimately show ?thesis by (simp add: n_def)
qed

lemma univariate_analysis_series:
  assumes "map_of df column = Some cells" "[x. Numeric x \<leftarrow> cells] \<noteq> []"
  shows "univariate_analysis df column =
     Inr \<lparr>ua_column = column,
          ua_count = length [x. Numeric x \<leftarrow> cells],
          ua_mean = series_mean [x. Numeric x \<leftarrow> cells],
          ua_std = series_std [x. Numeric x \<leftarrow> cells],
          ua_min = series_min [x. Numeric x \<leftarrow> cells],
          ua_max = series_max [x. Numeric x \<leftarrow> cells],
          ua_median = series_median [x. Numeric x \<leftarrow> cells],
          ua_q25 = series_quantile [x. Numeric x \<leftarrow> cells] 0.25,
          ua_q75 = series_quantile [x. Numeric x \<leftarrow> cells] 0.75,
          ua_skewness = series_skew [x. Numeric x \<leftarrow> cells],
          ua_kurtosis = series_kurtosis [x. Numeric x \<leftarrow> cells]\<rparr>"
  using assms
  by (simp add: univariate_analysis_def Let_def dropna_to_numeric del: concat_eq_Nil_conv)

theorem univariate_std_is_sample_std:
  "ua_std (projr (univariate_analysis [(''a'', [Numeric 0, Numeric 3, Numeric 6])] ''a'')) = Some 3 \<and>
   np_std [0, 3, 6] = sqrt 6 \<and>
   ua_std (projr (univariate_analysis [(''a'', [Numeric 0, Numeric 3, Numeric 6])] ''a''))
     \<noteq> Some (np_std [0, 3, 6])"
proof -
  have a: "ua_std (projr (univariate_analysis [(''a'', [Numeric 0, Numeric 3, Numeric 6])] ''a'')) = Some 3"
    using real_sqrt_abs [of 3]
    by (simp add: univariate_analysis_def Let_def dropna_def to_numeric_def
        List.map_filter_simps series_std_def series_mean_def power2_eq_square)
  have b: "np_std [0, 3, 6] = sqrt 6"
    by (simp add: np_std_def np_mean_def power2_eq_square)
  have c: "sqrt 6 \<noteq> 3"
  proof
    assume "sqrt 6 = 3"
    then have "(sqrt 6)\<^sup>2 = 3\<^sup>2" by (simp only:)
    then show False by simp
  qed
  from a b c show ?thesis by simp
qed


text \<open>
  Claim C2 (as amended).  For every table and column whose cleaned series is non-empty,
  the summary holds the count, mean, minimum, maximum, median, 25th and 75th percentiles,
  skewness and kurtosis of the cleaned series, and in \<open>std\<close> its sample standard
  deviation (divisor \<open>n - 1\<close>): undefined for a single value, and for \<open>n \<ge> 2\<close> the
  population standard deviation times \<open>sqrt (n / (n - 1))\<close>.  For \<open>[0, 3, 6]\<close> the field is 3,
  the population standard deviation is \<open>sqrt 6\<close>.
\<close>

theorem univariate_analysis_summary:
  "map_of df column = Some cells \<and> [x. Numeric x \<leftarrow> cells] \<noteq> [] \<longrightarrow>
   (let series = [x. Numeric x \<leftarrow> cells];
        n = length series;
        mean = sum_list series / real n;
        res = univariate_analysis df column
    in \<not> isl res \<and>
       ua_count (projr res) = n \<and>
       ua_mean (projr res) = mean \<and>
       (n = 1 \<longrightarrow> ua_std (projr res) = None) \<and>
       (2 \<le> n \<longrightarrow>
          ua_std (projr res) = Some (sqrt ((\<Sum>x\<leftarrow>series. (x - mean)\<^sup>2) / (real n - 1))) \<and>
          ua_std (projr res) = Some (np_std series * sqrt (real n / (real n - 1)))) \<and>
       ua_min (projr res) = Min (set series) \<and>
       ua_max (projr res) = Max (set series) \<and>
       ua_median (projr res) = series_median series \<and>
       ua_q25 (projr res) = series_quantile series (1 / 4) \<and>
       ua_q75 (projr res) = series_quantile series (3 / 4) \<and>
       ua_skewness (projr res) = series_skew series \<and>
       ua_kurtosis (projr res) = series_kurtosis series)"
proof
  assume a: "map_of df column = Some cells \<and> [x. Numeric x \<leftarrow> cells] \<noteq> []"
  define series where "series = [x. Numeric x \<leftarrow> cells]"
  define res where "res = univariate_analysis df column"
  have res: "res = Inr \<lparr>ua_column = column,
          ua_count = length series,
          ua_mean = series_mean series,
          ua_std = series_std series,
          ua_min = series_min series,
          ua_max = series_max series,
          ua_median = series_median series,
          ua_q25 = series_quantile series 0.25,
          ua_q75 = series_quantile series 0.75,
          ua_skewness = series_skew series,
          ua_kurtosis = series_kurtosis series\<rparr>"
    unfolding res_def series_def using a by (intro univariate_analysis_series) simp_all
  have one: "length series = 1 \<longrightarrow> series_std series = None"
    by (simp add: series_std_def)
  have two: "2 \<le> length series \<longrightarrow>
      series_std series = Some (sqrt ((\<Sum>x\<leftarrow>series.
          (x - sum_list series / real (length series))\<^sup>2) / (real (length series) - 1))) \<and>
      series_std series
        = Some (np_std series * sqrt (real (length series) / (real (length series) - 1)))"
  proof
    assume n: "2 \<le> length series"
    then have "series_std series = Some (sqrt ((\<Sum>x\<leftarrow>series.
          (x - sum_list series / real (length series))\<^sup>2) / (real (length series) - 1)))"
      by (simp add: series_std_def series_mean_def)
    moreover from n have "series_std series
        = Some (np_std series * sqrt (real (length series) / (real (length series) - 1)))"
      by (rule series_std_population)
    ultimately show "series_std series = Some (sqrt ((\<Sum>x\<leftarrow>series.
          (x - sum_list series / real (length series))\<^sup>2) / (real (length series) - 1))) \<and>
      series_std series
        = Some (np_std series * sqrt (real (length series) / (real (length series) - 1)))"
      by (rule conjI)
  qed
  have "\<not> isl res \<and>
       ua_count (projr res) = length series \<and>
       ua_mean (projr res) = sum_list series / real (length series) \<and>
       (length series = 1 \<longrightarrow> ua_std (projr res) = None) \<and>
       (2 \<le> length series \<longrightarrow>
          ua_std (projr res) = Some (sqrt ((\<Sum>x\<leftarrow>series.
            (x - sum_list series / real (length series))\<^sup>2) / (real (length series) - 1))) \<and>
          ua_std (projr res)
            = Some (np_std series * sqrt (real (length series) / (real (length series) - 1)))) \<and>
       ua_min (projr res) = Min (set series) \<and>
       ua_max (projr res) = Max (set series) \<and>
       ua_median (projr res) = series_median series \<and>
       ua_q25 (projr res) = series_quantile series (1 / 4) \<and>
       ua_q75 (projr res) = series_quantile series (3 / 4) \<and>
       ua_skewness (projr res) = series_skew series \<and>
       ua_kurtosis (projr res) = series_kurtosis series"
  proof -
    have f: "\<not> isl res" "ua_count (projr res) = length series"
      "ua_mean (projr res) = sum_list series / real (length series)"
      "ua_min (projr res) = Min (set series)" "ua_max (projr res) = Max (set series)"
      "ua_median (projr res) = series_median series"
      "ua_q25 (projr res) = series_quantile series (1 / 4)"
      "ua_q75 (projr res) = series_quantile series (3 / 4)"
      "ua_skewness (projr res) = series_skew series"
      "ua_kurtosis (projr res) = series_kurtosis series"
      by (simp_all add: res series_mean_def series_min_def series_max_def)
    have sd: "ua_std (projr res) = series_std series"
      by (simp add: res)
    from f one two show ?thesis
      unfolding sd by blast
  qed
  then show "let series = [x. Numeric x \<leftarrow> cells];
        n = length series;
        mean = sum_list series / real n;
        res = univariate_analysis df column
    in \<not> isl res \<and>
       ua_count (projr res) = n \<and>
       ua_mean (projr res) = mean \<and>
       (n = 1 \<longrightarrow> ua_std (projr res) = None) \<and>
       (2 \<le> n \<longrightarrow>
          ua_std (projr res) = Some (sqrt ((\<Sum>x\<leftarrow>series. (x - mean)\<^sup>2) / (real n - 1))) \<and>
          ua_std (projr res) = Some (np_std series * sqrt (real n / (real n - 1)))) \<and>
       ua_min (projr res) = Min (set series) \<and>
       ua_max (projr res) = Max (set series) \<and>
       ua_median (projr res) = series_median series \<and>
       ua_q25 (projr res) = series_quantile series (1 / 4) \<and>
       ua_q75 (projr res) = series_quantile series (3 / 4) \<and>
       ua_skewness (projr res) = series_skew series \<and>
       ua_kurtosis (projr res) = series_kurtosis series"
    unfolding Let_def series_def res_def .
qed

theorem univariate_analysis_summary_witness:
  "ua_count (projr (univariate_analysis
      [(''v'', [Numeric 10, NonNumeric, Numeric 20, Numeric 30, Numeric 40])] ''v'')) = 4 \<and>
   ua_mean (projr (univariate_analysis
      [(''v'', [Numeric 10, NonNumeric, Numeric 20, Numeric 30, Numeric 40])] ''v'')) = 25 \<and>
   ua_min (projr (univariate_analysis
      [(''v'', [Numeric 10, NonNumeric, Numeric 20, Numeric 30, Numeric 40])] ''v'')) = 10 \<and>
   ua_max (projr (univariate_analysis
      [(''v'', [Numeric 10, NonNumeric, Numeric 20, Numeric 30, Numeric 40])] ''v'')) = 40 \<and>
   ua_median (projr (univariate_analysis
      [(''v'', [Numeric 10, NonNumeric, Numeric 20, Numeric 30, Numeric 40])] ''v'')) = 25 \<and>
   ua_std (projr (univariate_analysis [(''a'', [Numeric 0, Numeric 3, Numeric 6])] ''a'')) = Some 3 \<and>
   ua_std (projr (univariate_analysis [(''s'', [Numeric 7, NonNumeric])] ''s'')) = None"
proof -
  have v: "ua_count (projr (univariate_analysis
      [(''v'', [Numeric 10, NonNumeric, Numeric 20, Numeric 30, Numeric 40])] ''v'')) = 4 \<and>
   ua_mean (projr (univariate_analysis
      [(''v'', [Numeric 10, NonNumeric, Numeric 20, Numeric 30, Numeric 40])] ''v'')) = 25 \<and>
   ua_min (projr (univariate_analysis
      [(''v'', [Numeric 10, NonNumeric, Numeric 20, Numeric 30, Numeric 40])] ''v'')) = 10 \<and>
   ua_max (projr (univariate_analysis
      [(''v'', [Numeric 10, NonNumeric, Numeric 20, Numeric 30, Numeric 40])] ''v'')) = 40 \<and>
   ua_median (projr (univariate_analysis
      [(''v'', [Numeric 10, NonNumeric, Numeric 20, Numeric 30, Numeric 40])] ''v'')) = 25"
    using univariate_analysis_summary [of "[(''v'', [Numeric 10, NonNumeric, Numeric 20, Numeric 30, Numeric 40])]"
        "''v''" "[Numeric 10, NonNumeric, Numeric 20, Numeric 30, Numeric 40]"]
    by (simp add: Let_def series_median_def)
  have a: "ua_std (projr (univariate_analysis [(''a'', [Numeric 0, Numeric 3, Numeric 6])] ''a'')) = Some 3"
    using univariate_analysis_summary [of "[(''a'', [Numeric 0, Numeric 3, Numeric 6])]"
        "''a''" "[Numeric 0, Numeric 3, Numeric 6]"] real_sqrt_abs [of 3]
    by (simp add: Let_def power2_eq_square)
  have s: "ua_std (projr (univariate_analysis [(''s'', [Numeric 7, NonNumeric])] ''s'')) = None"
    using univariate_analysis_summary [of "[(''s'', [Numeric 7, NonNumeric])]"
        "''s''" "[Numeric 7, NonNumeric]"]
    by (simp add: Let_def)
  from v a s show ?thesis by blast
qed

end
